theory Spec2Isabelle
  imports Complex_Main
begin

section \<open>Python values, messages and exceptions\<close>

text \<open>
  The services of \<^verbatim>\<open>tts_service.py\<close> and \<^verbatim>\<open>gemini_service.py\<close> take
  \<^verbatim>\<open>Dict[str, Any]\<close> arguments and test them with \<^verbatim>\<open>isinstance\<close>, so the values
  that can sit under a key are a datatype of their own. A Python \<^verbatim>\<open>float\<close> is carried as
  a real number: comparisons between finite floats and the literals of the source are
  exact, rounding of arithmetic results is not represented, and neither are NaN and the
  infinities. A \<^verbatim>\<open>str\<close> is a list of characters, one \<open>char\<close> per code point (so
  code points below 256), and \<open>length\<close> is Python's \<^verbatim>\<open>len\<close>.
\<close>

datatype pyval =
    PNone
  | PBool bool
  | PInt int
  | PFloat real
  | PStr string
  | PList "pyval list"

type_synonym pydict = "string \<rightharpoonup> pyval"

text \<open>
  \<^verbatim>\<open>isinstance(v, (int, float))\<close>: \<^verbatim>\<open>bool\<close> is a subclass of \<^verbatim>\<open>int\<close> in
  Python, so \<^verbatim>\<open>True\<close> and \<^verbatim>\<open>False\<close> pass the test and compare as 1 and 0.
\<close>

fun num_of :: "pyval \<Rightarrow> real option" where
  "num_of (PBool b) = Some (if b then 1 else 0)"
| "num_of (PInt i) = Some (of_int i)"
| "num_of (PFloat r) = Some r"
| "num_of _ = None"

text \<open>A value that is a number between two bounds, and one that is a number beyond them.\<close>

definition in_range :: "real \<Rightarrow> real \<Rightarrow> pyval \<Rightarrow> bool" where
  "in_range lo hi v = (case num_of v of None \<Rightarrow> False | Some r \<Rightarrow> lo \<le> r \<and> r \<le> hi)"

definition out_of_range :: "real \<Rightarrow> real \<Rightarrow> pyval \<Rightarrow> bool" where
  "out_of_range lo hi v = (case num_of v of None \<Rightarrow> False | Some r \<Rightarrow> r < lo \<or> hi < r)"

text \<open>
  The message of an exception. Constant messages are literal; a message built by an
  f-string is kept as its template with the interpolated values; \<open>Uncaught c\<close> is
  the message of a built-in exception of class \<open>c\<close> raised by the interpreter;
  \<open>Prefixed p m\<close> is \<^verbatim>\<open>f"{p}{str(e)}"\<close> for an exception \<^verbatim>\<open>e\<close> with message
  \<open>m\<close>.
\<close>

datatype message =
    Lit string
  | VoiceIdNotFound string "string list"
  | BaseVoiceIdNotFound string "string list"
  | EmotionMustBeOneOf "string list"
  | TextTooLong nat
  | Uncaught string
  | Prefixed string message

datatype error =
    ValueError message
  | TTSModelNotFoundError message
  | TTSProcessingError message
  | GeminiConfigError message
  | GeminiAPIError message
  | GeminiRequestError message

text \<open>\<^verbatim>\<open>str(e)\<close> for an exception of the services.\<close>

fun message_of :: "error \<Rightarrow> message" where
  "message_of (ValueError m) = m"
| "message_of (TTSModelNotFoundError m) = m"
| "message_of (TTSProcessingError m) = m"
| "message_of (GeminiConfigError m) = m"
| "message_of (GeminiAPIError m) = m"
| "message_of (GeminiRequestError m) = m"

definition bind_err :: "error + 'a \<Rightarrow> ('a \<Rightarrow> error + 'b) \<Rightarrow> error + 'b" where
  "bind_err r f = (case r of Inl e \<Rightarrow> Inl e | Inr x \<Rightarrow> f x)"

section \<open>\<^verbatim>\<open>KokoroTTSService._process_params\<close>\<close>

record processed_params =
  p_pitch :: pyval
  p_speed :: pyval
  p_emotion :: string
  p_emphasis :: "pyval list"

definition process_pitch :: "pydict \<Rightarrow> error + pyval" where
  "process_pitch params =
     (case params ''pitch'' of
        Some pitch \<Rightarrow>
          (case num_of pitch of
             None \<Rightarrow> Inl (ValueError (Lit ''Pitch must be a number''))
           | Some r \<Rightarrow>
               if r < - 10 \<or> r > 10
               then Inl (ValueError (Lit ''Pitch must be between -10.0 and 10.0''))
               else Inr pitch)
      | None \<Rightarrow> Inr (PFloat 0))"

definition process_speed :: "pydict \<Rightarrow> error + pyval" where
  "process_speed params =
     (case params ''speed'' of
        Some speed \<Rightarrow>
          (case num_of speed of
             None \<Rightarrow> Inl (ValueError (Lit ''Speed must be a number''))
           | Some r \<Rightarrow>
               if r < 1 / 2 \<or> r > 2
               then Inl (ValueError (Lit ''Speed must be between 0.5 and 2.0''))
               else Inr speed)
      | None \<Rightarrow> Inr (PFloat 1))"

definition valid_emotions :: "string list" where
  "valid_emotions = [''neutral'', ''happy'', ''sad'', ''angry'']"

definition process_emotion :: "pydict \<Rightarrow> error + string" where
  "process_emotion params =
     (case params ''emotion'' of
        Some (PStr emotion) \<Rightarrow>
          if emotion \<notin> set valid_emotions
          then Inl (ValueError (EmotionMustBeOneOf valid_emotions))
          else Inr emotion
      | Some _ \<Rightarrow> Inl (ValueError (Lit ''Emotion must be a string''))
      | None \<Rightarrow> Inr ''neutral'')"

definition process_emphasis :: "pydict \<Rightarrow> error + pyval list" where
  "process_emphasis params =
     (case params ''emphasis'' of
        Some (PList emphasis) \<Rightarrow> Inr emphasis
      | Some _ \<Rightarrow> Inl (ValueError (Lit ''Emphasis must be a list of words''))
      | None \<Rightarrow> Inr [])"

text \<open>
  The four blocks run in the order of the source, and the first \<^verbatim>\<open>raise\<close> ends the
  call.
\<close>

definition process_params :: "pydict \<Rightarrow> error + processed_params" where
  "process_params params =
     bind_err (process_pitch params) (\<lambda>pitch.
     bind_err (process_speed params) (\<lambda>speed.
     bind_err (process_emotion params) (\<lambda>emotion.
     bind_err (process_emphasis params) (\<lambda>emphasis.
       Inr \<lparr>p_pitch = pitch, p_speed = speed, p_emotion = emotion,
            p_emphasis = emphasis\<rparr>))))"

section \<open>Decimal numerals and whitespace\<close>

text \<open>\<^verbatim>\<open>str(n)\<close> for a non-negative integer, as the f-strings of the source use it.\<close>

definition digit_char :: "nat \<Rightarrow> char" where
  "digit_char d = ''0123456789'' ! d"

fun str_nat :: "nat \<Rightarrow> string" where
  "str_nat n = (if n < 10 then [digit_char n] else str_nat (n div 10) @ [digit_char (n mod 10)])"

declare str_nat.simps [simp del]

text \<open>
  \<^verbatim>\<open>str.isspace\<close> on code points below 256: tab to carriage return, the four
  separators 0x1C to 0x1F, space, NEL and the no-break space.
\<close>

definition isspace :: "char \<Rightarrow> bool" where
  "isspace c = (let n = (of_char c :: nat) in
     (9 \<le> n \<and> n \<le> 13) \<or> (28 \<le> n \<and> n \<le> 32) \<or> n = 133 \<or> n = 160)"

text \<open>
  \<^verbatim>\<open>text.split()\<close> with no argument: the maximal runs of non-whitespace characters.
  \<open>cur\<close> is the word being read.
\<close>

fun split_from :: "string \<Rightarrow> string \<Rightarrow> string list" where
  "split_from cur [] = (if cur = [] then [] else [cur])"
| "split_from cur (c # cs) =
     (if isspace c then (if cur = [] then split_from [] cs else cur # split_from [] cs)
      else split_from (cur @ [c]) cs)"

definition py_split :: "string \<Rightarrow> string list" where
  "py_split s = split_from [] s"

section \<open>\<^verbatim>\<open>KokoroTTSService\<close>: state, model loading\<close>

text \<open>
  An entry of \<^verbatim>\<open>available_voices\<close>. The built-in entries have the keys \<^verbatim>\<open>id\<close>,
  \<^verbatim>\<open>name\<close>, \<^verbatim>\<open>gender\<close> and \<^verbatim>\<open>language\<close> only; the keys that
  \<^verbatim>\<open>customize_voice\<close> adds are absent there, which is \<open>False\<close> and \<open>None\<close> here.
  A name is a value given by the caller, or the f-string \<^verbatim>\<open>f"Customized {name}"\<close>
  over the name of the base voice.
\<close>

datatype voice_name = Name pyval | Customized voice_name

record voice =
  v_id :: string
  v_name :: voice_name
  v_gender :: string
  v_language :: string
  v_is_custom :: bool
  v_base_voice_id :: "string option"
  v_customizations :: "pydict option"

record tts =
  initialized :: bool
  available_voices :: "voice list"

definition builtin_voice :: "string \<Rightarrow> string \<Rightarrow> string \<Rightarrow> string \<Rightarrow> voice" where
  "builtin_voice i n g l =
     \<lparr>v_id = i, v_name = Name (PStr n), v_gender = g, v_language = l,
      v_is_custom = False, v_base_voice_id = None, v_customizations = None\<rparr>"

definition builtin_voices :: "voice list" where
  "builtin_voices =
     [builtin_voice ''voice_1'' ''Female 1'' ''female'' ''en-US'',
      builtin_voice ''voice_2'' ''Male 1'' ''male'' ''en-US'',
      builtin_voice ''voice_3'' ''Female 2'' ''female'' ''en-US'',
      builtin_voice ''voice_4'' ''Male 2'' ''male'' ''en-US'']"

text \<open>\<^verbatim>\<open>_load_model\<close>: the mock loading cannot raise.\<close>

definition load_model :: "tts \<Rightarrow> tts" where
  "load_model s = s\<lparr>available_voices := builtin_voices, initialized := True\<rparr>"

definition ensure_model_loaded :: "tts \<Rightarrow> error + tts" where
  "ensure_model_loaded s =
     (if \<not> initialized s then
        (let s' = load_model s in
         if \<not> initialized s'
         then Inl (TTSModelNotFoundError (Lit ''TTS model could not be initialized''))
         else Inr s')
      else Inr s)"

text \<open>
  \<^verbatim>\<open>__init__\<close>: the model is loaded at once when the model directory exists, and on
  first use otherwise.
\<close>

definition init_tts :: "bool \<Rightarrow> tts" where
  "init_tts model_dir_exists =
     (let s = \<lparr>initialized = False, available_voices = []\<rparr>
      in if model_dir_exists then load_model s else s)"

definition get_available_voices :: "tts \<Rightarrow> (error + voice list) \<times> tts" where
  "get_available_voices s =
     (case ensure_model_loaded s of
        Inl e \<Rightarrow> (Inl e, s)
      | Inr s' \<Rightarrow> (Inr (available_voices s'), s'))"

section \<open>\<^verbatim>\<open>KokoroTTSService.generate_audio\<close>\<close>

text \<open>
  What the call reads from its surroundings: the directory of
  \<^verbatim>\<open>tempfile.gettempdir()\<close>, Python's \<^verbatim>\<open>hash\<close> on strings (salted per process),
  and whether opening and writing the audio file raises (the message of the exception if
  it does). Writing the mock audio file is the only work done on the side of the
  synthesis back end.
\<close>

record env =
  temp_dir :: string
  py_hash :: "string \<Rightarrow> int"
  write_error :: "string \<Rightarrow> message option"

text \<open>The files written so far: path and content, latest last.\<close>

type_synonym files = "(string \<times> string) list"

record audio_result =
  a_file_path :: string
  a_duration :: real
  a_format :: string
  a_sample_rate :: nat
  a_text_length :: nat
  a_voice_id :: string
  a_parameters :: processed_params

definition audio_file_path :: "env \<Rightarrow> string \<Rightarrow> string \<Rightarrow> string" where
  "audio_file_path e voice_id text =
     temp_dir e @ ''/'' @ ''kokoro_tts_'' @ voice_id @ ''_''
       @ str_nat (nat (py_hash e text mod 10000)) @ ''.mp3''"

text \<open>
  The body of the \<^verbatim>\<open>try\<close> block. Every exception raised in it, the
  \<^verbatim>\<open>ValueError\<close> of \<^verbatim>\<open>_process_params\<close> included, leaves through
  \<^verbatim>\<open>except Exception\<close> and is raised again as \<^verbatim>\<open>TTSProcessingError\<close>.
\<close>

definition generate_audio_body ::
  "env \<Rightarrow> files \<Rightarrow> string \<Rightarrow> string \<Rightarrow> pydict \<Rightarrow> (message + audio_result) \<times> files" where
  "generate_audio_body e fs text voice_id params =
     (case process_params params of
        Inl err \<Rightarrow> (Inl (message_of err), fs)
      | Inr processed_params \<Rightarrow>
          (let audio_file = audio_file_path e voice_id text in
           case write_error e audio_file of
             Some m \<Rightarrow> (Inl m, fs)
           | None \<Rightarrow>
               (let fs' = fs @ [(audio_file, ''Mock audio data'')];
                    words = length (py_split text)
                in case num_of (p_speed processed_params) of
                     None \<Rightarrow> (Inl (Uncaught ''TypeError''), fs')
                   | Some speech_rate \<Rightarrow>
                       if speech_rate = 0 then (Inl (Uncaught ''ZeroDivisionError''), fs')
                       else
                         (Inr \<lparr>a_file_path = audio_file,
                               a_duration = (real words / 150) * (1 / speech_rate),
                               a_format = ''mp3'',
                               a_sample_rate = 24000,
                               a_text_length = length text,
                               a_voice_id = voice_id,
                               a_parameters = processed_params\<rparr>, fs'))))"

text \<open>
  \<^verbatim>\<open>params\<close> is \<open>None\<close> when the argument is omitted; \<^verbatim>\<open>params or {}\<close> makes
  it the empty dictionary. The result is the returned dictionary or the exception, with
  the service state and the files after the call.
\<close>

definition generate_audio ::
  "env \<Rightarrow> tts \<Rightarrow> files \<Rightarrow> string \<Rightarrow> string \<Rightarrow> pydict option
     \<Rightarrow> (error + audio_result) \<times> tts \<times> files" where
  "generate_audio e s fs text voice_id params =
     (if text = [] then (Inl (ValueError (Lit ''Text must be a non-empty string'')), s, fs)
      else if voice_id = []
      then (Inl (ValueError (Lit ''Voice ID must be a non-empty string'')), s, fs)
      else if length text > 10000
      then (Inl (ValueError (Lit ''Text is too long (max 10000 characters)'')), s, fs)
      else
        (let params = (case params of None \<Rightarrow> Map.empty | Some p \<Rightarrow> p) in
         case ensure_model_loaded s of
           Inl err \<Rightarrow> (Inl err, s, fs)
         | Inr s' \<Rightarrow>
             if \<not> list_ex (\<lambda>voice. v_id voice = voice_id) (available_voices s')
             then (Inl (ValueError
                          (VoiceIdNotFound voice_id (map v_id (available_voices s')))), s', fs)
             else
               (case generate_audio_body e fs text voice_id params of
                  (Inl m, fs') \<Rightarrow>
                    (Inl (TTSProcessingError (Prefixed ''Failed to generate audio: '' m)),
                     s', fs')
                | (Inr result, fs') \<Rightarrow> (Inr result, s', fs'))))"

section \<open>\<^verbatim>\<open>KokoroTTSService.customize_voice\<close>\<close>

definition new_voice_id_of :: "string \<Rightarrow> nat \<Rightarrow> string" where
  "new_voice_id_of voice_id n = ''custom_'' @ voice_id @ ''_'' @ str_nat n"

text \<open>The dictionary appended to \<^verbatim>\<open>available_voices\<close>.\<close>

definition new_voice :: "voice \<Rightarrow> string \<Rightarrow> string \<Rightarrow> pydict \<Rightarrow> voice" where
  "new_voice base_voice voice_id new_voice_id customizations =
     \<lparr>v_id = new_voice_id,
      v_name = (case customizations ''name'' of
                  Some n \<Rightarrow> Name n
                | None \<Rightarrow> Customized (v_name base_voice)),
      v_gender = v_gender base_voice,
      v_language = v_language base_voice,
      v_is_custom = True,
      v_base_voice_id = Some voice_id,
      v_customizations = Some customizations\<rparr>"

text \<open>
  \<^verbatim>\<open>next(...)\<close> takes the first voice with the given id; it cannot raise
  \<^verbatim>\<open>StopIteration\<close> after the test before it, and the branch is kept for the
  \<^verbatim>\<open>except\<close> clause that would catch it.
\<close>

definition customize_voice ::
  "tts \<Rightarrow> string \<Rightarrow> pydict \<Rightarrow> (error + string) \<times> tts" where
  "customize_voice s voice_id customizations =
     (if voice_id = [] then (Inl (ValueError (Lit ''Voice ID must be a non-empty string'')), s)
      else if customizations = Map.empty
      then (Inl (ValueError (Lit ''Customizations must be a non-empty dictionary'')), s)
      else
        (case ensure_model_loaded s of
           Inl err \<Rightarrow> (Inl err, s)
         | Inr s' \<Rightarrow>
             if \<not> list_ex (\<lambda>voice. v_id voice = voice_id) (available_voices s')
             then (Inl (ValueError
                          (BaseVoiceIdNotFound voice_id (map v_id (available_voices s')))), s')
             else
               (case find (\<lambda>voice. v_id voice = voice_id) (available_voices s') of
                  None \<Rightarrow>
                    (Inl (TTSProcessingError
                            (Prefixed ''Failed to customize voice: '' (Uncaught ''StopIteration''))),
                     s')
                | Some base_voice \<Rightarrow>
                    (let new_voice_id =
                           new_voice_id_of voice_id (length (available_voices s') + 1);
                         new_voice = new_voice base_voice voice_id new_voice_id customizations
                     in (Inr new_voice_id,
                         s'\<lparr>available_voices := available_voices s' @ [new_voice]\<rparr>)))))"

text \<open>
  The states of the service: those of \<^verbatim>\<open>__init__\<close>, and those that its public
  methods lead to.
\<close>

inductive reachable :: "tts \<Rightarrow> bool" where
  reach_init: "reachable (init_tts model_dir_exists)"
| reach_voices: "reachable s \<Longrightarrow> reachable (snd (get_available_voices s))"
| reach_generate:
    "reachable s \<Longrightarrow> reachable (fst (snd (generate_audio e s fs text voice_id params)))"
| reach_customize:
    "reachable s \<Longrightarrow> reachable (snd (customize_voice s voice_id customizations))"

section \<open>\<^verbatim>\<open>CharacterInfo\<close> and \<^verbatim>\<open>DialogueInfo\<close>\<close>

record voice_suggestion =
  sg_voice_id :: string
  sg_name :: string
  sg_pitch :: int
  sg_speed :: real
  sg_confidence :: real

record CharacterInfo =
  name :: string
  description :: string
  dialogue_count :: int
  confidence :: real
  is_narrator :: bool
  character_traits :: "string list"
  gender :: "string option"
  age :: "string option"
  speaking_style :: "string option"
  voice_suggestions :: "voice_suggestion list"

text \<open>
  The dictionary form of a character. \<^verbatim>\<open>from_dict\<close> reads every key but
  \<^verbatim>\<open>name\<close> with \<^verbatim>\<open>data.get\<close>, so every other key may be absent; for
  \<^verbatim>\<open>gender\<close>, \<^verbatim>\<open>age\<close> and \<^verbatim>\<open>speaking_style\<close> an absent key and the value
  \<^verbatim>\<open>None\<close> read the same.
\<close>

record character_data =
  k_name :: string
  k_description :: "string option"
  k_dialogue_count :: "int option"
  k_confidence :: "real option"
  k_is_narrator :: "bool option"
  k_character_traits :: "string list option"
  k_gender :: "string option"
  k_age :: "string option"
  k_speaking_style :: "string option"
  k_voice_suggestions :: "voice_suggestion list option"

definition to_dict :: "CharacterInfo \<Rightarrow> character_data" where
  "to_dict c =
     \<lparr>k_name = name c,
      k_description = Some (description c),
      k_dialogue_count = Some (dialogue_count c),
      k_confidence = Some (confidence c),
      k_is_narrator = Some (is_narrator c),
      k_character_traits = Some (character_traits c),
      k_gender = gender c,
      k_age = age c,
      k_speaking_style = speaking_style c,
      k_voice_suggestions = Some (voice_suggestions c)\<rparr>"

definition from_dict :: "character_data \<Rightarrow> CharacterInfo" where
  "from_dict d =
     \<lparr>name = k_name d,
      description = (case k_description d of None \<Rightarrow> [] | Some x \<Rightarrow> x),
      dialogue_count = (case k_dialogue_count d of None \<Rightarrow> 0 | Some x \<Rightarrow> x),
      confidence = (case k_confidence d of None \<Rightarrow> 0 | Some x \<Rightarrow> x),
      is_narrator = (case k_is_narrator d of None \<Rightarrow> False | Some x \<Rightarrow> x),
      character_traits = (case k_character_traits d of None \<Rightarrow> [] | Some x \<Rightarrow> x),
      gender = k_gender d,
      age = k_age d,
      speaking_style = k_speaking_style d,
      voice_suggestions = (case k_voice_suggestions d of None \<Rightarrow> [] | Some x \<Rightarrow> x)\<rparr>"

record DialogueInfo =
  d_text :: string
  character_name :: string
  start_index :: int
  end_index :: int
  d_confidence :: real
  emotion :: "string option"

record dialogue_data =
  dd_text :: string
  dd_character_name :: string
  dd_start_index :: int
  dd_end_index :: int
  dd_confidence :: "real option"
  dd_emotion :: "string option"

definition dialogue_from_dict :: "dialogue_data \<Rightarrow> DialogueInfo" where
  "dialogue_from_dict d =
     \<lparr>d_text = dd_text d,
      character_name = dd_character_name d,
      start_index = dd_start_index d,
      end_index = dd_end_index d,
      d_confidence = (case dd_confidence d of None \<Rightarrow> 0 | Some x \<Rightarrow> x),
      emotion = dd_emotion d\<rparr>"

section \<open>The mock analyses of \<^verbatim>\<open>GeminiService\<close>\<close>

subsection \<open>\<^verbatim>\<open>_mock_character_analysis\<close>\<close>

definition mock_character :: "nat \<Rightarrow> nat \<Rightarrow> character_data" where
  "mock_character text_length i =
     (let is_narrator = (i = 0) in
      \<lparr>k_name = (if is_narrator then ''Narrator'' else ''Character '' @ str_nat i),
       k_description = Some (if is_narrator then ''The narrator of the story''
                             else ''A supporting character in the story''),
       k_dialogue_count =
         Some (int ((text_length div 500) * (if is_narrator then 3 else 1))),
       k_confidence = Some (9 / 10 - real i * (5 / 100)),
       k_is_narrator = Some is_narrator,
       k_character_traits = Some (if is_narrator then [''observant'', ''descriptive'']
                                  else [''trait1'', ''trait2'']),
       k_gender = (if is_narrator then None
                   else Some (if i mod 2 = 0 then ''male'' else ''female'')),
       k_age = (if is_narrator then None else Some ''adult''),
       k_speaking_style = Some (if is_narrator then ''formal'' else ''casual''),
       k_voice_suggestions = None\<rparr>)"

record characters_response =
  characters :: "character_data list"
  language_detected :: string
  character_count :: nat

definition mock_character_analysis :: "string \<Rightarrow> characters_response" where
  "mock_character_analysis text =
     (let text_length = length text;
          num_characters = min (max 2 (text_length div 10000)) 10;
          mock_characters = map (mock_character text_length) [0..<num_characters]
      in \<lparr>characters = mock_characters, language_detected = ''en'',
          character_count = length mock_characters\<rparr>)"

subsection \<open>\<^verbatim>\<open>_mock_dialogue_analysis\<close>\<close>

text \<open>
  The \<^verbatim>\<open>for\<close> loop over \<^verbatim>\<open>range(num_dialogues)\<close>: the indices still to visit and
  \<^verbatim>\<open>current_pos\<close>; each \<^verbatim>\<open>break\<close> ends the list.
\<close>

fun dialogue_loop :: "string \<Rightarrow> nat \<Rightarrow> nat list \<Rightarrow> nat \<Rightarrow> dialogue_data list" where
  "dialogue_loop text num_dialogues [] current_pos = []"
| "dialogue_loop text num_dialogues (i # rest) current_pos =
     (let text_length = length text;
          dialogue_length = min 100 (text_length div num_dialogues)
      in if current_pos + dialogue_length \<ge> text_length then []
         else
           (let current_pos = current_pos + min 500 (text_length div (num_dialogues * 2))
            in if current_pos \<ge> text_length then []
               else
                 (let character_index = i mod 3;
                      character_name =
                        (if character_index = 0 then ''Narrator''
                         else ''Character '' @ str_nat character_index);
                      dialogue =
                        \<lparr>dd_text =
                           (if current_pos + dialogue_length < text_length
                            then take dialogue_length (drop current_pos text)
                            else drop current_pos text),
                         dd_character_name = character_name,
                         dd_start_index = int current_pos,
                         dd_end_index = int (current_pos + dialogue_length),
                         dd_confidence = Some (8 / 10),
                         dd_emotion =
                           Some ([''neutral'', ''happy'', ''sad'', ''angry''] ! (i mod 4))\<rparr>
                  in dialogue
                     # dialogue_loop text num_dialogues rest (current_pos + dialogue_length))))"

record dialogues_response =
  dialogues :: "dialogue_data list"
  dialogues_count :: nat

definition mock_dialogue_analysis :: "string \<Rightarrow> dialogues_response" where
  "mock_dialogue_analysis text =
     (let text_length = length text;
          num_dialogues = min (max 5 (text_length div 5000)) 50;
          mock_dialogues = dialogue_loop text num_dialogues [0..<num_dialogues] 0
      in \<lparr>dialogues = mock_dialogues, dialogues_count = length mock_dialogues\<rparr>)"

subsection \<open>\<^verbatim>\<open>_mock_voice_suggestions\<close>\<close>

definition suggestion :: "string \<Rightarrow> string \<Rightarrow> int \<Rightarrow> real \<Rightarrow> real \<Rightarrow> voice_suggestion" where
  "suggestion i n p sp c =
     \<lparr>sg_voice_id = i, sg_name = n, sg_pitch = p, sg_speed = sp, sg_confidence = c\<rparr>"

text \<open>
  The \<^verbatim>\<open>if\<close>/\<^verbatim>\<open>elif\<close> chain on one character dictionary, where
  \<^verbatim>\<open>char.get("is_narrator", False)\<close> is tested for truth first and the gender after.
\<close>

definition suggestions_for :: "character_data \<Rightarrow> voice_suggestion list" where
  "suggestions_for char =
     (let is_narrator = (case k_is_narrator char of None \<Rightarrow> False | Some b \<Rightarrow> b);
          gender = k_gender char
      in if is_narrator then
           [suggestion ''narrator_1'' ''Clear Narrator'' 0 1 (95 / 100),
            suggestion ''narrator_2'' ''Storyteller'' (- 1) (9 / 10) (9 / 10)]
         else if gender = Some ''male'' then
           [suggestion ''male_1'' ''Standard Male'' 0 1 (9 / 10),
            suggestion ''male_2'' ''Deep Male'' (- 2) (95 / 100) (85 / 100)]
         else if gender = Some ''female'' then
           [suggestion ''female_1'' ''Standard Female'' 1 1 (9 / 10),
            suggestion ''female_2'' ''Soft Female'' 2 (105 / 100) (85 / 100)]
         else
           [suggestion ''neutral_1'' ''Neutral Voice'' 0 1 (8 / 10)])"

text \<open>
  The second loop: \<^verbatim>\<open>voice_suggestions[name] = suggestions\<close> for each character in
  turn, so a later character replaces the entry of an earlier one of the same name.
\<close>

fun suggestions_loop ::
  "character_data list \<Rightarrow> (string \<rightharpoonup> voice_suggestion list)
     \<Rightarrow> (string \<rightharpoonup> voice_suggestion list)" where
  "suggestions_loop [] suggested = suggested"
| "suggestions_loop (char # rest) suggested =
     suggestions_loop rest (suggested(k_name char \<mapsto> suggestions_for char))"

text \<open>
  The argument is a list of \<^verbatim>\<open>CharacterInfo\<close> objects or of dictionaries; the first
  loop turns the objects into dictionaries.
\<close>

definition mock_voice_suggestions ::
  "(CharacterInfo + character_data) list \<Rightarrow> (string \<rightharpoonup> voice_suggestion list)" where
  "mock_voice_suggestions chars =
     (let char_list = map (\<lambda>char. case char of Inl c \<Rightarrow> to_dict c | Inr d \<Rightarrow> d) chars
      in suggestions_loop char_list Map.empty)"

section \<open>The public methods of \<^verbatim>\<open>GeminiService\<close>\<close>

text \<open>
  \<^verbatim>\<open>self.api_key\<close> is \<open>None\<close> or a string, and the service tests it for truth: the
  empty string counts as no key.
\<close>

definition has_key :: "string option \<Rightarrow> bool" where
  "has_key api_key = (case api_key of None \<Rightarrow> False | Some k \<Rightarrow> k \<noteq> [])"

definition validate_text_input :: "string \<Rightarrow> error + unit" where
  "validate_text_input text =
     (if text = [] then Inl (ValueError (Lit ''Text cannot be empty''))
      else if length text > 1000000 then Inl (ValueError (TextTooLong (length text)))
      else Inr ())"

definition validate_api_key :: "string option \<Rightarrow> error + unit" where
  "validate_api_key api_key =
     (if \<not> has_key api_key
      then Inl (GeminiConfigError (Lit ''No Gemini API key configured''))
      else Inr ())"

text \<open>
  \<^verbatim>\<open>_make_api_request\<close> answers every endpoint from the mock analyses. The request
  dictionary is read under \<^verbatim>\<open>text\<close> and \<^verbatim>\<open>characters\<close> only.
\<close>

record request_data =
  req_text :: "string option"
  req_characters :: "character_data list option"

datatype response =
    Characters characters_response
  | Dialogues dialogues_response
  | VoiceSuggestions "string \<rightharpoonup> voice_suggestion list"

definition make_api_request :: "string \<Rightarrow> request_data \<Rightarrow> error + response" where
  "make_api_request endpoint data =
     (if endpoint = ''analyzeCharacters''
      then Inr (Characters (mock_character_analysis
                  (case req_text data of None \<Rightarrow> [] | Some t \<Rightarrow> t)))
      else if endpoint = ''analyzeDialogue''
      then Inr (Dialogues (mock_dialogue_analysis
                  (case req_text data of None \<Rightarrow> [] | Some t \<Rightarrow> t)))
      else if endpoint = ''suggestVoices''
      then Inr (VoiceSuggestions (mock_voice_suggestions
                  (map Inr (case req_characters data of None \<Rightarrow> [] | Some cs \<Rightarrow> cs))))
      else Inl (GeminiAPIError
                  (Prefixed ''Error making API request: ''
                     (Prefixed ''Unknown endpoint: '' (Lit endpoint)))))"

text \<open>
  The handlers that close each public method: configuration and API errors pass, every
  other exception becomes a \<^verbatim>\<open>GeminiRequestError\<close>.
\<close>

fun handle :: "string \<Rightarrow> error \<Rightarrow> error" where
  "handle prefix (GeminiConfigError m) = GeminiConfigError m"
| "handle prefix (GeminiAPIError m) = GeminiAPIError m"
| "handle prefix e = GeminiRequestError (Prefixed prefix (message_of e))"

definition identify_characters :: "string option \<Rightarrow> string \<Rightarrow> error + CharacterInfo list" where
  "identify_characters api_key text =
     bind_err (validate_text_input text) (\<lambda>_.
       if has_key api_key then
         (case bind_err (validate_api_key api_key) (\<lambda>_.
                 make_api_request ''analyzeCharacters''
                   \<lparr>req_text = Some text, req_characters = None\<rparr>) of
            Inl e \<Rightarrow> Inl (handle ''Error identifying characters: '' e)
          | Inr r \<Rightarrow>
              Inr (map from_dict (case r of Characters c \<Rightarrow> characters c | _ \<Rightarrow> [])))
       else
         (let mock_response = mock_character_analysis text
          in Inr (map from_dict (characters mock_response))))"

definition identify_dialogue ::
  "string option \<Rightarrow> string \<Rightarrow> CharacterInfo list \<Rightarrow> error + DialogueInfo list" where
  "identify_dialogue api_key text chars =
     bind_err (validate_text_input text) (\<lambda>_.
       if chars = [] then Inl (ValueError (Lit ''Character list cannot be empty''))
       else if has_key api_key then
         (case bind_err (validate_api_key api_key) (\<lambda>_.
                 (let char_data = map to_dict chars
                  in make_api_request ''analyzeDialogue''
                       \<lparr>req_text = Some text, req_characters = Some char_data\<rparr>)) of
            Inl e \<Rightarrow> Inl (handle ''Error identifying dialogue: '' e)
          | Inr r \<Rightarrow>
              Inr (map dialogue_from_dict (case r of Dialogues d \<Rightarrow> dialogues d | _ \<Rightarrow> [])))
       else
         (let mock_response = mock_dialogue_analysis text
          in Inr (map dialogue_from_dict (dialogues mock_response))))"

definition suggest_voices ::
  "string option \<Rightarrow> CharacterInfo list \<Rightarrow> error + (string \<rightharpoonup> voice_suggestion list)" where
  "suggest_voices api_key chars =
     (if chars = [] then Inl (ValueError (Lit ''Character list cannot be empty''))
      else if has_key api_key then
        (case bind_err (validate_api_key api_key) (\<lambda>_.
                (let char_data = map to_dict chars
                 in make_api_request ''suggestVoices''
                      \<lparr>req_text = None, req_characters = Some char_data\<rparr>)) of
           Inl e \<Rightarrow> Inl (handle ''Error suggesting voices: '' e)
         | Inr r \<Rightarrow> Inr (case r of VoiceSuggestions m \<Rightarrow> m | _ \<Rightarrow> Map.empty))
      else Inr (mock_voice_suggestions (map Inl chars)))"

section \<open>Sequences of calls, sample surroundings, and the catalog invariant\<close>

text \<open>A run of \<^verbatim>\<open>customize_voice\<close> calls, each on the state the one before left.\<close>

fun customize_seq :: "tts \<Rightarrow> (string \<times> pydict) list \<Rightarrow> tts" where
  "customize_seq s [] = s"
| "customize_seq s ((voice_id, customizations) # calls) =
     customize_seq (snd (customize_voice s voice_id customizations)) calls"

text \<open>
  Surroundings for concrete calls: one in which the audio file can be written, and one
  in which opening it raises \<^verbatim>\<open>OSError\<close>.
\<close>

definition sample_env :: env where
  "sample_env = \<lparr>temp_dir = ''/tmp'', py_hash = (\<lambda>_. 0), write_error = (\<lambda>_. None)\<rparr>"

definition full_disk_env :: env where
  "full_disk_env = sample_env\<lparr>write_error := (\<lambda>_. Some (Uncaught ''OSError''))\<rparr>"

text \<open>
  The invariant behind the uniqueness of voice ids: the ids are pairwise distinct, and an
  id of the form \<^verbatim>\<open>custom_{base}_{n}\<close> has \<open>n\<close> at most the length of the list,
  so that the next id, numbered one more than the length, is new. No id is empty, and a
  loaded service lists the built-in voices first.
\<close>

definition ids_fresh :: "voice list \<Rightarrow> bool" where
  "ids_fresh vs \<longleftrightarrow>
     distinct (map v_id vs) \<and>
     (\<forall>v \<in> set vs. \<forall>b n. v_id v = new_voice_id_of b n \<longrightarrow> n \<le> length vs)"

definition catalog_ok :: "tts \<Rightarrow> bool" where
  "catalog_ok s \<longleftrightarrow>
     ids_fresh (available_voices s) \<and>
     (\<forall>v \<in> set (available_voices s). v_id v \<noteq> []) \<and>
     (if initialized s then \<exists>cs. available_voices s = builtin_voices @ cs
      else available_voices s = [])"

section \<open>Decimal numerals: digits and injectivity\<close>

lemma digit_char_code: "d < 10 \<Longrightarrow> of_char (digit_char d) = 48 + d"
proof -
  assume "d < 10"
  then have "d = 0 \<or> d = 1 \<or> d = 2 \<or> d = 3 \<or> d = 4 \<or> d = 5 \<or> d = 6 \<or> d = 7 \<or> d = 8 \<or> d = 9"
    by arith
  then show ?thesis by (auto simp: digit_char_def)
qed

lemma digit_char_inj: "a < 10 \<Longrightarrow> b < 10 \<Longrightarrow> digit_char a = digit_char b \<Longrightarrow> a = b"
proof -
  assume a: "a < 10" and b: "b < 10" and eq: "digit_char a = digit_char b"
  have "48 + a = (of_char (digit_char a) :: nat)" using a by (simp only: digit_char_code)
  also have "\<dots> = of_char (digit_char b)" by (simp only: eq)
  also have "\<dots> = 48 + b" using b by (simp only: digit_char_code)
  finally show "a = b" by (simp only: add_left_cancel)
qed

lemma digit_char_not_underscore: "d < 10 \<Longrightarrow> digit_char d \<noteq> CHR ''_''"
proof
  assume d: "d < 10" and eq: "digit_char d = CHR ''_''"
  have "48 + d = (of_char (digit_char d) :: nat)" using d by (simp only: digit_char_code)
  also have "\<dots> = 95" unfolding eq by simp
  finally show False using d by arith
qed

lemma str_nat_nonempty: "str_nat n \<noteq> []"
  by (subst str_nat.simps) simp

lemma str_nat_no_underscore: "CHR ''_'' \<notin> set (str_nat n)"
proof (induction n rule: str_nat.induct)
  case (1 n)
  show ?case
  proof (cases "n < 10")
    case True
    then show ?thesis
      using digit_char_not_underscore [of n] by (subst str_nat.simps) simp
  next
    case False
    have "n mod 10 < 10" by simp
    then have "digit_char (n mod 10) \<noteq> CHR ''_''" by (rule digit_char_not_underscore)
    with False "1.IH" show ?thesis by (subst str_nat.simps) simp
  qed
qed

lemma str_nat_inj: "str_nat n = str_nat m \<Longrightarrow> n = m"
proof (induction n arbitrary: m rule: str_nat.induct)
  case (1 n)
  show ?case
  proof (cases "n < 10")
    case n: True
    show ?thesis
    proof (cases "m < 10")
      case True
      with n "1.prems" have "digit_char n = digit_char m"
        by (simp add: str_nat.simps [of n] str_nat.simps [of m])
      with n True show ?thesis by (rule digit_char_inj)
    next
      case False
      with n "1.prems" show ?thesis
        using str_nat_nonempty [of "m div 10"]
        by (simp add: str_nat.simps [of n] str_nat.simps [of m])
    qed
  next
    case n: False
    show ?thesis
    proof (cases "m < 10")
      case True
      with n "1.prems" show ?thesis
        using str_nat_nonempty [of "n div 10"]
        by (simp add: str_nat.simps [of n] str_nat.simps [of m])
    next
      case False
      with n "1.prems" have eq: "str_nat (n div 10) = str_nat (m div 10)"
        and d: "digit_char (n mod 10) = digit_char (m mod 10)"
        by (simp_all add: str_nat.simps [of n] str_nat.simps [of m])
      from n eq have "n div 10 = m div 10" by (rule "1.IH")
      moreover have "n mod 10 < 10" "m mod 10 < 10" by simp_all
      then have "n mod 10 = m mod 10" using d by (rule digit_char_inj)
      ultimately show ?thesis by (metis div_mult_mod_eq)
    qed
  qed
qed

lemma split_at_first:
  "x \<notin> set xs \<Longrightarrow> x \<notin> set xs' \<Longrightarrow> xs @ x # ys = xs' @ x # ys' \<Longrightarrow> xs = xs' \<and> ys = ys'"
proof (induction xs arbitrary: xs')
  case Nil
  then show ?case by (cases xs') auto
next
  case (Cons a xs)
  then show ?case by (cases xs') auto
qed

lemma new_voice_id_of_inj:
  assumes "new_voice_id_of b n = new_voice_id_of b' n'"
  shows "b = b' \<and> n = n'"
proof -
  from assms have "b @ CHR ''_'' # str_nat n = b' @ CHR ''_'' # str_nat n'"
    by (simp add: new_voice_id_of_def)
  then have "rev (b @ CHR ''_'' # str_nat n) = rev (b' @ CHR ''_'' # str_nat n')"
    by (rule arg_cong)
  then have "rev (str_nat n) @ CHR ''_'' # rev b = rev (str_nat n') @ CHR ''_'' # rev b'"
    by simp
  moreover have "CHR ''_'' \<notin> set (rev (str_nat n))" "CHR ''_'' \<notin> set (rev (str_nat n'))"
    using str_nat_no_underscore by simp_all
  ultimately have "rev (str_nat n) = rev (str_nat n') \<and> rev b = rev b'"
    by (intro split_at_first)
  then show ?thesis by (auto dest: str_nat_inj)
qed

section \<open>Parameter validation\<close>

lemma process_pitch_ok:
  "(case params ''pitch'' of None \<Rightarrow> True | Some v \<Rightarrow> in_range (- 10) 10 v) \<Longrightarrow>
   process_pitch params = Inr (case params ''pitch'' of None \<Rightarrow> PFloat 0 | Some v \<Rightarrow> v)"
  by (auto simp: process_pitch_def in_range_def split: option.splits)

lemma process_speed_ok:
  "(case params ''speed'' of None \<Rightarrow> True | Some v \<Rightarrow> in_range (1 / 2) 2 v) \<Longrightarrow>
   process_speed params = Inr (case params ''speed'' of None \<Rightarrow> PFloat 1 | Some v \<Rightarrow> v)"
  by (auto simp: process_speed_def in_range_def split: option.splits)

lemma process_emotion_ok:
  "(case params ''emotion'' of None \<Rightarrow> True | Some v \<Rightarrow> v \<in> PStr ` set valid_emotions) \<Longrightarrow>
   process_emotion params =
     Inr (case params ''emotion'' of Some (PStr e) \<Rightarrow> e | _ \<Rightarrow> ''neutral'')"
  by (auto simp: process_emotion_def split: option.splits)

lemma process_emphasis_ok:
  "(case params ''emphasis'' of Some (PList ws) \<Rightarrow> True | Some _ \<Rightarrow> False | None \<Rightarrow> True) \<Longrightarrow>
   process_emphasis params =
     Inr (case params ''emphasis'' of Some (PList ws) \<Rightarrow> ws | _ \<Rightarrow> [])"
  by (auto simp: process_emphasis_def split: option.splits pyval.splits)

lemma process_pitch_out:
  "params ''pitch'' = Some v \<Longrightarrow> out_of_range (- 10) 10 v \<Longrightarrow>
   process_pitch params = Inl (ValueError (Lit ''Pitch must be between -10.0 and 10.0''))"
  by (auto simp: process_pitch_def out_of_range_def split: option.splits)

lemma process_speed_out:
  "params ''speed'' = Some v \<Longrightarrow> out_of_range (1 / 2) 2 v \<Longrightarrow>
   process_speed params = Inl (ValueError (Lit ''Speed must be between 0.5 and 2.0''))"
  by (auto simp: process_speed_def out_of_range_def split: option.splits)

lemma process_pitch_cases:
  "(\<exists>m. process_pitch params = Inl (ValueError m)) \<or> (\<exists>p. process_pitch params = Inr p)"
  by (simp add: process_pitch_def split: option.splits)

lemma process_params_error_kind:
  "process_params params = Inl err \<Longrightarrow> \<exists>m. err = ValueError m"
  by (auto simp: process_params_def bind_err_def process_pitch_def process_speed_def
        process_emotion_def process_emphasis_def
      split: sum.splits option.splits if_splits pyval.splits)

text \<open>
  Claim C1, as amended. A parameter dictionary in which every supplied key is valid
  (\<^verbatim>\<open>pitch\<close> a number in \<open>[-10, 10]\<close>, \<^verbatim>\<open>speed\<close> a number in \<open>[0.5, 2]\<close>,
  \<^verbatim>\<open>emotion\<close> one of the four valid emotions, \<^verbatim>\<open>emphasis\<close> a list) is returned
  with the pitch and the speed unchanged, and with the defaults 0.0, 1.0,
  \<^verbatim>\<open>"neutral"\<close> and the empty list for the keys that are absent. A dictionary whose
  pitch is a number outside \<open>[-10, 10]\<close>, or whose speed is a number outside
  \<open>[0.5, 2]\<close>, is refused with a \<^verbatim>\<open>ValueError\<close>, whatever its other keys hold.
\<close>

theorem process_params_ranges:
  "((case params ''pitch'' of None \<Rightarrow> True | Some v \<Rightarrow> in_range (- 10) 10 v) \<and>
    (case params ''speed'' of None \<Rightarrow> True | Some v \<Rightarrow> in_range (1 / 2) 2 v) \<and>
    (case params ''emotion'' of None \<Rightarrow> True | Some v \<Rightarrow> v \<in> PStr ` set valid_emotions) \<and>
    (case params ''emphasis'' of Some (PList ws) \<Rightarrow> True | Some _ \<Rightarrow> False | None \<Rightarrow> True)
    \<longrightarrow>
    process_params params =
      Inr \<lparr>p_pitch = (case params ''pitch'' of None \<Rightarrow> PFloat 0 | Some v \<Rightarrow> v),
           p_speed = (case params ''speed'' of None \<Rightarrow> PFloat 1 | Some v \<Rightarrow> v),
           p_emotion = (case params ''emotion'' of Some (PStr e) \<Rightarrow> e | _ \<Rightarrow> ''neutral''),
           p_emphasis = (case params ''emphasis'' of Some (PList ws) \<Rightarrow> ws | _ \<Rightarrow> [])\<rparr>)
   \<and>
   ((case params' ''pitch'' of None \<Rightarrow> False | Some v \<Rightarrow> out_of_range (- 10) 10 v) \<or>
    (case params' ''speed'' of None \<Rightarrow> False | Some v \<Rightarrow> out_of_range (1 / 2) 2 v)
    \<longrightarrow> (\<exists>m. process_params params' = Inl (ValueError m)))"
proof (intro conjI impI)
  assume ok:
   "(case params ''pitch'' of None \<Rightarrow> True | Some v \<Rightarrow> in_range (- 10) 10 v) \<and>
    (case params ''speed'' of None \<Rightarrow> True | Some v \<Rightarrow> in_range (1 / 2) 2 v) \<and>
    (case params ''emotion'' of None \<Rightarrow> True | Some v \<Rightarrow> v \<in> PStr ` set valid_emotions) \<and>
    (case params ''emphasis'' of Some (PList ws) \<Rightarrow> True | Some _ \<Rightarrow> False | None \<Rightarrow> True)"
  then show "process_params params =
      Inr \<lparr>p_pitch = (case params ''pitch'' of None \<Rightarrow> PFloat 0 | Some v \<Rightarrow> v),
           p_speed = (case params ''speed'' of None \<Rightarrow> PFloat 1 | Some v \<Rightarrow> v),
           p_emotion = (case params ''emotion'' of Some (PStr e) \<Rightarrow> e | _ \<Rightarrow> ''neutral''),
           p_emphasis = (case params ''emphasis'' of Some (PList ws) \<Rightarrow> ws | _ \<Rightarrow> [])\<rparr>"
    by (simp add: process_params_def bind_err_def process_pitch_ok process_speed_ok
          process_emotion_ok process_emphasis_ok)
next
  assume out:
    "(case params' ''pitch'' of None \<Rightarrow> False | Some v \<Rightarrow> out_of_range (- 10) 10 v) \<or>
     (case params' ''speed'' of None \<Rightarrow> False | Some v \<Rightarrow> out_of_range (1 / 2) 2 v)"
  then show "\<exists>m. process_params params' = Inl (ValueError m)"
  proof
    assume "case params' ''pitch'' of None \<Rightarrow> False | Some v \<Rightarrow> out_of_range (- 10) 10 v"
    then have "process_pitch params' = Inl (ValueError (Lit ''Pitch must be between -10.0 and 10.0''))"
      by (auto intro: process_pitch_out split: option.splits)
    then show ?thesis by (simp add: process_params_def bind_err_def)
  next
    assume "case params' ''speed'' of None \<Rightarrow> False | Some v \<Rightarrow> out_of_range (1 / 2) 2 v"
    then have sp: "process_speed params' = Inl (ValueError (Lit ''Speed must be between 0.5 and 2.0''))"
      by (auto intro: process_speed_out split: option.splits)
    from process_pitch_cases [of params'] show ?thesis
    proof
      assume "\<exists>m. process_pitch params' = Inl (ValueError m)"
      then show ?thesis by (auto simp: process_params_def bind_err_def)
    next
      assume "\<exists>p. process_pitch params' = Inr p"
      with sp show ?thesis by (auto simp: process_params_def bind_err_def)
    qed
  qed
qed

text \<open>
  The theorem at two dictionaries: one with all four keys valid, and one whose speed
  0.25 is below the range.
\<close>

theorem process_params_ranges_witness:
  "process_params [''pitch'' \<mapsto> PFloat (5 / 2), ''speed'' \<mapsto> PInt 2,
                   ''emotion'' \<mapsto> PStr ''sad'', ''emphasis'' \<mapsto> PList [PStr ''now'']] =
     Inr \<lparr>p_pitch = PFloat (5 / 2), p_speed = PInt 2, p_emotion = ''sad'',
          p_emphasis = [PStr ''now'']\<rparr>
   \<and> (\<exists>m. process_params [''speed'' \<mapsto> PFloat (1 / 4)] = Inl (ValueError m))"
proof
  show "process_params [''pitch'' \<mapsto> PFloat (5 / 2), ''speed'' \<mapsto> PInt 2,
                   ''emotion'' \<mapsto> PStr ''sad'', ''emphasis'' \<mapsto> PList [PStr ''now'']] =
     Inr \<lparr>p_pitch = PFloat (5 / 2), p_speed = PInt 2, p_emotion = ''sad'',
          p_emphasis = [PStr ''now'']\<rparr>"
    using process_params_ranges [of "[''pitch'' \<mapsto> PFloat (5 / 2), ''speed'' \<mapsto> PInt 2,
                   ''emotion'' \<mapsto> PStr ''sad'', ''emphasis'' \<mapsto> PList [PStr ''now'']]" Map.empty]
    by (simp add: in_range_def valid_emotions_def)
  show "\<exists>m. process_params [''speed'' \<mapsto> PFloat (1 / 4)] = Inl (ValueError m)"
    using process_params_ranges [of Map.empty "[''speed'' \<mapsto> PFloat (1 / 4)]"]
    by (simp add: out_of_range_def)
qed

text \<open>
  Claim C1 as first stated asks for the values back whenever pitch and speed are in
  range. A dictionary with pitch 0.0, speed 1.0 and the emotion \<^verbatim>\<open>"excited"\<close> is
  refused: the emotion is validated too.
\<close>

theorem process_params_valid_pitch_speed_counterexample:
  "process_params [''pitch'' \<mapsto> PFloat 0, ''speed'' \<mapsto> PFloat 1, ''emotion'' \<mapsto> PStr ''excited''] =
     Inl (ValueError (EmotionMustBeOneOf [''neutral'', ''happy'', ''sad'', ''angry'']))"
  by (simp add: process_params_def bind_err_def process_pitch_def process_speed_def
        process_emotion_def valid_emotions_def)

section \<open>The voice catalog: what every reachable state satisfies\<close>

lemma ensure_model_loaded_eq:
  "ensure_model_loaded s = Inr (if initialized s then s else load_model s)"
  by (simp add: ensure_model_loaded_def load_model_def)

lemma builtin_not_custom: "v \<in> set builtin_voices \<Longrightarrow> v_id v \<noteq> new_voice_id_of b n"
  by (auto simp: builtin_voices_def builtin_voice_def new_voice_id_of_def)

lemma ids_fresh_builtin: "ids_fresh builtin_voices"
  unfolding ids_fresh_def
proof (intro conjI ballI allI impI)
  show "distinct (map v_id builtin_voices)"
    by (simp add: builtin_voices_def builtin_voice_def)
next
  fix v b n
  assume "v \<in> set builtin_voices" "v_id v = new_voice_id_of b n"
  then show "n \<le> length builtin_voices" using builtin_not_custom by blast
qed

lemma ids_fresh_new:
  assumes "ids_fresh vs"
  shows "new_voice_id_of b (length vs + 1) \<notin> set (map v_id vs)"
proof
  assume "new_voice_id_of b (length vs + 1) \<in> set (map v_id vs)"
  then obtain v where v: "v \<in> set vs" "v_id v = new_voice_id_of b (length vs + 1)" by auto
  with assms have "length vs + 1 \<le> length vs" unfolding ids_fresh_def by blast
  then show False by simp
qed

lemma ids_fresh_append:
  assumes "ids_fresh vs" and "v_id new = new_voice_id_of b (length vs + 1)"
  shows "ids_fresh (vs @ [new])"
  unfolding ids_fresh_def
proof (intro conjI ballI allI impI)
  from assms(1) have "distinct (map v_id vs)" by (simp add: ids_fresh_def)
  moreover from ids_fresh_new [OF assms(1), of b] assms(2) have "v_id new \<notin> set (map v_id vs)"
    by simp
  ultimately show "distinct (map v_id (vs @ [new]))" by simp
next
  fix v b' n
  assume v: "v \<in> set (vs @ [new])" and eq: "v_id v = new_voice_id_of b' n"
  show "n \<le> length (vs @ [new])"
  proof (cases "v \<in> set vs")
    case True
    with assms(1) eq have "n \<le> length vs" unfolding ids_fresh_def by blast
    then show ?thesis by simp
  next
    case False
    with v have "v = new" by simp
    with eq assms(2) have "new_voice_id_of b (length vs + 1) = new_voice_id_of b' n" by simp
    then have "n = length vs + 1" using new_voice_id_of_inj by blast
    then show ?thesis by simp
  qed
qed

lemma builtin_ids_nonempty: "\<forall>v \<in> set builtin_voices. v_id v \<noteq> []"
  by (simp add: builtin_voices_def builtin_voice_def)

lemma catalog_ok_load: "catalog_ok (load_model s)"
  by (simp add: catalog_ok_def load_model_def ids_fresh_builtin builtin_ids_nonempty)

lemma initialized_load: "initialized (load_model s)"
  by (simp add: load_model_def)

lemma catalog_ok_ensure:
  "catalog_ok s \<Longrightarrow> ensure_model_loaded s = Inr s' \<Longrightarrow> catalog_ok s' \<and> initialized s'"
  by (auto simp: ensure_model_loaded_eq catalog_ok_load initialized_load split: if_splits)

lemma generate_audio_state:
  "fst (snd (generate_audio e s fs text voice_id params)) = s \<or>
   ensure_model_loaded s = Inr (fst (snd (generate_audio e s fs text voice_id params)))"
  by (auto simp: generate_audio_def ensure_model_loaded_eq Let_def split: prod.splits sum.splits)

lemma list_ex_find:
  "list_ex P xs \<Longrightarrow> \<exists>x. find P xs = Some x \<and> P x \<and> x \<in> set xs"
  by (induction xs) auto

lemma customize_voice_invalid:
  "voice_id = [] \<or> c = Map.empty \<Longrightarrow>
   \<exists>m. customize_voice s voice_id c = (Inl (ValueError m), s)"
  by (auto simp: customize_voice_def)

lemma customize_voice_unknown:
  "voice_id \<noteq> [] \<Longrightarrow> c \<noteq> Map.empty \<Longrightarrow> ensure_model_loaded s = Inr s' \<Longrightarrow>
   \<not> list_ex (\<lambda>v. v_id v = voice_id) (available_voices s') \<Longrightarrow>
   customize_voice s voice_id c =
     (Inl (ValueError (BaseVoiceIdNotFound voice_id (map v_id (available_voices s')))), s')"
  by (simp add: customize_voice_def)

lemma customize_voice_known:
  "voice_id \<noteq> [] \<Longrightarrow> c \<noteq> Map.empty \<Longrightarrow> ensure_model_loaded s = Inr s' \<Longrightarrow>
   find (\<lambda>v. v_id v = voice_id) (available_voices s') = Some base \<Longrightarrow>
   customize_voice s voice_id c =
     (Inr (new_voice_id_of voice_id (length (available_voices s') + 1)),
      s'\<lparr>available_voices := available_voices s' @
            [new_voice base voice_id
               (new_voice_id_of voice_id (length (available_voices s') + 1)) c]\<rparr>)"
proof -
  assume a: "voice_id \<noteq> []" "c \<noteq> Map.empty" "ensure_model_loaded s = Inr s'"
    and f: "find (\<lambda>v. v_id v = voice_id) (available_voices s') = Some base"
  from f have "list_ex (\<lambda>v. v_id v = voice_id) (available_voices s')"
    by (auto simp: find_Some_iff list_ex_iff)
  with a f show ?thesis by (simp add: customize_voice_def Let_def)
qed

lemma customize_voice_state:
  "snd (customize_voice s voice_id c) = s \<or>
   ensure_model_loaded s = Inr (snd (customize_voice s voice_id c)) \<or>
   (\<exists>s' new. ensure_model_loaded s = Inr s' \<and>
      v_id new = new_voice_id_of voice_id (length (available_voices s') + 1) \<and>
      snd (customize_voice s voice_id c) =
        s'\<lparr>available_voices := available_voices s' @ [new]\<rparr>)"
proof (cases "voice_id = [] \<or> c = Map.empty")
  case True
  then show ?thesis using customize_voice_invalid [of voice_id c s] by auto
next
  case False
  obtain s' where e: "ensure_model_loaded s = Inr s'" by (simp add: ensure_model_loaded_eq)
  show ?thesis
  proof (cases "list_ex (\<lambda>v. v_id v = voice_id) (available_voices s')")
    case no: False
    with False e show ?thesis by (simp add: customize_voice_unknown)
  next
    case True
    then obtain base where "find (\<lambda>v. v_id v = voice_id) (available_voices s') = Some base"
      using list_ex_find by blast
    with False e have
      "customize_voice s voice_id c =
         (Inr (new_voice_id_of voice_id (length (available_voices s') + 1)),
          s'\<lparr>available_voices := available_voices s' @
            [new_voice base voice_id
               (new_voice_id_of voice_id (length (available_voices s') + 1)) c]\<rparr>)"
      by (simp add: customize_voice_known)
    moreover have "v_id (new_voice base voice_id
               (new_voice_id_of voice_id (length (available_voices s') + 1)) c) =
             new_voice_id_of voice_id (length (available_voices s') + 1)"
      by (simp add: new_voice_def)
    ultimately show ?thesis using e by auto
  qed
qed

lemma catalog_ok_append:
  assumes "catalog_ok s'" "initialized s'"
    and "v_id new = new_voice_id_of b (length (available_voices s') + 1)"
  shows "catalog_ok (s'\<lparr>available_voices := available_voices s' @ [new]\<rparr>)"
proof -
  from assms(3) have "v_id new \<noteq> []" by (simp add: new_voice_id_of_def)
  with assms ids_fresh_append [of "available_voices s'" new b] show ?thesis
    by (auto simp: catalog_ok_def)
qed

lemma reachable_catalog_ok: "reachable s \<Longrightarrow> catalog_ok s"
proof (induction rule: reachable.induct)
  case (reach_init model_dir_exists)
  show ?case
  proof (cases model_dir_exists)
    case True
    then show ?thesis by (simp add: init_tts_def catalog_ok_load)
  next
    case False
    then show ?thesis by (simp add: init_tts_def catalog_ok_def ids_fresh_def)
  qed
next
  case (reach_voices s)
  then show ?case
    using catalog_ok_ensure [of s]
    by (auto simp: get_available_voices_def ensure_model_loaded_eq)
next
  case (reach_generate s e fs t voice_id params)
  from generate_audio_state [of e s fs t voice_id params] reach_generate.IH
  show ?case using catalog_ok_ensure by auto
next
  case (reach_customize s voice_id customizations)
  from customize_voice_state [of s voice_id customizations]
  show ?case
  proof (elim disjE exE conjE)
    assume "snd (customize_voice s voice_id customizations) = s"
    with reach_customize.IH show ?thesis by simp
  next
    assume "ensure_model_loaded s = Inr (snd (customize_voice s voice_id customizations))"
    with reach_customize.IH show ?thesis using catalog_ok_ensure by blast
  next
    fix s' new
    assume e: "ensure_model_loaded s = Inr s'"
      and n: "v_id new = new_voice_id_of voice_id (length (available_voices s') + 1)"
      and r: "snd (customize_voice s voice_id customizations) =
                s'\<lparr>available_voices := available_voices s' @ [new]\<rparr>"
    from reach_customize.IH e have "catalog_ok s'" "initialized s'"
      using catalog_ok_ensure by blast+
    then show ?thesis unfolding r using n by (rule catalog_ok_append)
  qed
qed

lemma reachable_customize_seq: "reachable s \<Longrightarrow> reachable (customize_seq s calls)"
proof (induction calls arbitrary: s)
  case Nil
  then show ?case by simp
next
  case (Cons call calls)
  obtain voice_id c where call: "call = (voice_id, c)" by (cases call)
  from Cons.prems have "reachable (snd (customize_voice s voice_id c))"
    by (rule reach_customize)
  then have "reachable (customize_seq (snd (customize_voice s voice_id c)) calls)"
    by (rule Cons.IH)
  with call show ?case by simp
qed

lemma reachable_loaded_prefix:
  assumes "reachable s" and "ensure_model_loaded s = Inr s'"
  shows "\<exists>cs. available_voices s' = available_voices s @ cs"
proof (cases "initialized s")
  case True
  with assms(2) show ?thesis by (simp add: ensure_model_loaded_eq)
next
  case False
  with reachable_catalog_ok [OF assms(1)] have "available_voices s = []"
    by (simp add: catalog_ok_def)
  then show ?thesis by simp
qed

lemma new_voice_fields:
  "v_id (new_voice base voice_id i c) = i"
  "v_gender (new_voice base voice_id i c) = v_gender base"
  "v_language (new_voice base voice_id i c) = v_language base"
  "v_is_custom (new_voice base voice_id i c)"
  "v_base_voice_id (new_voice base voice_id i c) = Some voice_id"
  "v_customizations (new_voice base voice_id i c) = Some c"
  by (simp_all add: new_voice_def)

text \<open>
  Claim C9, as amended. In every state \<open>s\<close> the service can reach, with \<open>s'\<close> the
  state after the model is loaded: a call on a base id that is not in the list fails
  with a \<^verbatim>\<open>ValueError\<close> and appends nothing; a call on a known base id with an empty
  customization dictionary fails with a \<^verbatim>\<open>ValueError\<close> and leaves the state as it
  was; a call on a known base id with a non-empty dictionary appends exactly one voice
  after the voices already there, with the gender and the language of the base,
  \<^verbatim>\<open>is_custom\<close> true, \<^verbatim>\<open>base_voice_id\<close> the base id, and an id that no
  voice of the list has. Loading the model keeps the voices that were there, and after
  any sequence of calls the ids of the list are pairwise distinct.
\<close>

theorem customize_voice_derive:
  assumes "reachable s" and "ensure_model_loaded s = Inr s'"
  shows
    "(\<not> list_ex (\<lambda>v. v_id v = voice_id) (available_voices s') \<longrightarrow>
        (\<exists>m s''. customize_voice s voice_id c = (Inl (ValueError m), s'') \<and>
                  (s'' = s \<or> s'' = s')))
     \<and> (list_ex (\<lambda>v. v_id v = voice_id) (available_voices s') \<and> c = Map.empty \<longrightarrow>
        (\<exists>m. customize_voice s voice_id c = (Inl (ValueError m), s)))
     \<and> (list_ex (\<lambda>v. v_id v = voice_id) (available_voices s') \<and> c \<noteq> Map.empty \<longrightarrow>
        (\<exists>base new.
           find (\<lambda>v. v_id v = voice_id) (available_voices s') = Some base \<and>
           customize_voice s voice_id c =
             (Inr (v_id new), s'\<lparr>available_voices := available_voices s' @ [new]\<rparr>) \<and>
           v_gender new = v_gender base \<and> v_language new = v_language base \<and>
           v_is_custom new \<and> v_base_voice_id new = Some voice_id \<and>
           v_id new \<notin> set (map v_id (available_voices s'))))
     \<and> (\<exists>cs. available_voices s' = available_voices s @ cs)
     \<and> distinct (map v_id (available_voices (customize_seq s calls)))"
proof (intro conjI impI)
  assume no: "\<not> list_ex (\<lambda>v. v_id v = voice_id) (available_voices s')"
  show "\<exists>m s''. customize_voice s voice_id c = (Inl (ValueError m), s'') \<and> (s'' = s \<or> s'' = s')"
  proof (cases "voice_id = [] \<or> c = Map.empty")
    case True
    then show ?thesis using customize_voice_invalid [of voice_id c s] by blast
  next
    case False
    with assms(2) no show ?thesis by (simp add: customize_voice_unknown)
  qed
next
  assume "list_ex (\<lambda>v. v_id v = voice_id) (available_voices s') \<and> c = Map.empty"
  then show "\<exists>m. customize_voice s voice_id c = (Inl (ValueError m), s)"
    by (simp add: customize_voice_invalid)
next
  assume yes: "list_ex (\<lambda>v. v_id v = voice_id) (available_voices s') \<and> c \<noteq> Map.empty"
  then obtain base where base: "find (\<lambda>v. v_id v = voice_id) (available_voices s') = Some base"
    and mem: "base \<in> set (available_voices s')" and id: "v_id base = voice_id"
    using list_ex_find [of "\<lambda>v. v_id v = voice_id" "available_voices s'"] by blast
  have ne: "voice_id \<noteq> []"
  proof
    assume "voice_id = []"
    with id have "v_id base = []" by simp
    moreover from assms have "catalog_ok s'" using reachable_catalog_ok catalog_ok_ensure by blast
    ultimately show False using mem by (auto simp: catalog_ok_def)
  qed
  let ?i = "new_voice_id_of voice_id (length (available_voices s') + 1)"
  let ?new = "new_voice base voice_id ?i c"
  from ne yes assms(2) base have
    "customize_voice s voice_id c =
       (Inr (v_id ?new), s'\<lparr>available_voices := available_voices s' @ [?new]\<rparr>)"
    by (simp add: customize_voice_known new_voice_fields)
  moreover from assms have "ids_fresh (available_voices s')"
    using reachable_catalog_ok catalog_ok_ensure catalog_ok_def by blast
  then have "v_id ?new \<notin> set (map v_id (available_voices s'))"
    using ids_fresh_new [of "available_voices s'" voice_id] by (simp add: new_voice_fields)
  ultimately show "\<exists>base new.
           find (\<lambda>v. v_id v = voice_id) (available_voices s') = Some base \<and>
           customize_voice s voice_id c =
             (Inr (v_id new), s'\<lparr>available_voices := available_voices s' @ [new]\<rparr>) \<and>
           v_gender new = v_gender base \<and> v_language new = v_language base \<and>
           v_is_custom new \<and> v_base_voice_id new = Some voice_id \<and>
           v_id new \<notin> set (map v_id (available_voices s'))"
    using base by (intro exI [of _ base] exI [of _ ?new]) (simp add: new_voice_fields)
next
  show "\<exists>cs. available_voices s' = available_voices s @ cs"
    using assms by (rule reachable_loaded_prefix)
next
  from assms(1) have "reachable (customize_seq s calls)" by (rule reachable_customize_seq)
  then have "catalog_ok (customize_seq s calls)" by (rule reachable_catalog_ok)
  then show "distinct (map v_id (available_voices (customize_seq s calls)))"
    by (simp add: catalog_ok_def ids_fresh_def)
qed

lemma init_tts_loaded:
  "ensure_model_loaded (init_tts b) = Inr (load_model \<lparr>initialized = False, available_voices = []\<rparr>)"
  by (cases b) (simp_all add: ensure_model_loaded_eq init_tts_def load_model_def)

lemma init_tts_True: "init_tts True = \<lparr>initialized = True, available_voices = builtin_voices\<rparr>"
  by (simp add: init_tts_def load_model_def)

lemma builtin_ids:
  "map v_id builtin_voices = [''voice_1'', ''voice_2'', ''voice_3'', ''voice_4'']"
  by (simp add: builtin_voices_def builtin_voice_def)

text \<open>
  The theorem in the state of a freshly loaded service: an unknown base id, the known
  base id \<^verbatim>\<open>voice_1\<close>, and three calls in a row on \<^verbatim>\<open>voice_1\<close>.
\<close>

theorem customize_voice_derive_witness:
  "(\<exists>m. customize_voice (init_tts True) ''voice_9'' [''timbre'' \<mapsto> PStr ''warm''] =
          (Inl (ValueError m), init_tts True))
   \<and> (\<exists>base new.
         find (\<lambda>v. v_id v = ''voice_1'') (available_voices (init_tts True)) = Some base \<and>
         customize_voice (init_tts True) ''voice_1'' [''timbre'' \<mapsto> PStr ''warm''] =
           (Inr (v_id new),
            (init_tts True)\<lparr>available_voices := available_voices (init_tts True) @ [new]\<rparr>) \<and>
         v_gender new = v_gender base \<and> v_language new = v_language base \<and>
         v_is_custom new \<and> v_base_voice_id new = Some ''voice_1'' \<and>
         v_id new \<notin> set (map v_id (available_voices (init_tts True))))
   \<and> distinct (map v_id (available_voices (customize_seq (init_tts True)
         [(''voice_1'', [''timbre'' \<mapsto> PStr ''warm'']),
          (''voice_1'', [''timbre'' \<mapsto> PStr ''warm'']),
          (''voice_1'', [''timbre'' \<mapsto> PStr ''warm''])])))"
proof -
  let ?s = "init_tts True"
  let ?c = "[''timbre'' \<mapsto> PStr ''warm'']"
  let ?calls = "[(''voice_1'', ?c), (''voice_1'', ?c), (''voice_1'', ?c)]"
  have r: "reachable ?s" by (rule reach_init)
  have e: "ensure_model_loaded ?s = Inr ?s"
    by (simp add: ensure_model_loaded_eq init_tts_True)
  have known: "list_ex (\<lambda>v. v_id v = ''voice_1'') (available_voices ?s)"
    by (simp add: init_tts_True builtin_voices_def builtin_voice_def)
  have unknown: "\<not> list_ex (\<lambda>v. v_id v = ''voice_9'') (available_voices ?s)"
    by (simp add: init_tts_True builtin_voices_def builtin_voice_def)
  have c: "?c \<noteq> Map.empty" by simp
  note t9 = customize_voice_derive [OF r e, of "''voice_9''" ?c ?calls]
  note t1 = customize_voice_derive [OF r e, of "''voice_1''" ?c ?calls]
  from t9 unknown have
    "\<exists>m. customize_voice ?s ''voice_9'' ?c = (Inl (ValueError m), ?s)" by blast
  moreover from t1 known c have
    "\<exists>base new.
         find (\<lambda>v. v_id v = ''voice_1'') (available_voices ?s) = Some base \<and>
         customize_voice ?s ''voice_1'' ?c =
           (Inr (v_id new), ?s\<lparr>available_voices := available_voices ?s @ [new]\<rparr>) \<and>
         v_gender new = v_gender base \<and> v_language new = v_language base \<and>
         v_is_custom new \<and> v_base_voice_id new = Some ''voice_1'' \<and>
         v_id new \<notin> set (map v_id (available_voices ?s))" by blast
  moreover from t1 have "distinct (map v_id (available_voices (customize_seq ?s ?calls)))"
    by blast
  ultimately show ?thesis by blast
qed

text \<open>
  Claim C9 as first stated has every call on a known base id append a voice. With
  \<^verbatim>\<open>voice_1\<close> and the empty dictionary the call raises \<^verbatim>\<open>ValueError\<close> instead,
  and the state is unchanged.
\<close>

theorem customize_voice_known_base_counterexample:
  "''voice_1'' \<in> set (map v_id (available_voices (init_tts True))) \<and>
   customize_voice (init_tts True) ''voice_1'' Map.empty =
     (Inl (ValueError (Lit ''Customizations must be a non-empty dictionary'')), init_tts True)"
  by (simp add: customize_voice_def init_tts_True builtin_ids)

section \<open>Audio generation: the gates and the duration\<close>

lemma generate_audio_text_gate:
  "text = [] \<or> length text > 10000 \<Longrightarrow>
   \<exists>m. generate_audio e s fs text voice_id params = (Inl (ValueError m), s, fs)"
  by (auto simp: generate_audio_def)

lemma generate_audio_voice_gate:
  assumes "text \<noteq> []" "length text \<le> 10000" "ensure_model_loaded s = Inr s'"
    and "\<not> list_ex (\<lambda>v. v_id v = voice_id) (available_voices s')"
  shows "\<exists>m s''. generate_audio e s fs text voice_id params = (Inl (ValueError m), s'', fs)"
  using assms by (auto simp: generate_audio_def)

lemma generate_audio_params_gate:
  assumes "text \<noteq> []" "length text \<le> 10000" "voice_id \<noteq> []"
    and "ensure_model_loaded s = Inr s'"
    and "list_ex (\<lambda>v. v_id v = voice_id) (available_voices s')"
    and "process_params (case params of None \<Rightarrow> Map.empty | Some p \<Rightarrow> p) = Inl err"
  shows "generate_audio e s fs text voice_id params =
           (Inl (TTSProcessingError (Prefixed ''Failed to generate audio: '' (message_of err))),
            s', fs)"
  using assms by (simp add: generate_audio_def generate_audio_body_def)

lemma generate_audio_provider_failure:
  assumes "text \<noteq> []" "length text \<le> 10000" "voice_id \<noteq> []"
    and "ensure_model_loaded s = Inr s'"
    and "list_ex (\<lambda>v. v_id v = voice_id) (available_voices s')"
    and "process_params (case params of None \<Rightarrow> Map.empty | Some p \<Rightarrow> p) = Inr pp"
    and "write_error e (audio_file_path e voice_id text) = Some m"
  shows "generate_audio e s fs text voice_id params =
           (Inl (TTSProcessingError (Prefixed ''Failed to generate audio: '' m)), s', fs)"
  using assms by (simp add: generate_audio_def generate_audio_body_def)

lemma process_params_speed:
  "process_params params = Inr pp \<Longrightarrow> in_range (1 / 2) 2 (p_speed pp)"
  by (auto simp: process_params_def bind_err_def process_speed_def in_range_def
      split: sum.splits option.splits if_splits)

lemma generate_audio_success:
  assumes "text \<noteq> []" "length text \<le> 10000" "voice_id \<noteq> []"
    and "ensure_model_loaded s = Inr s'"
    and "list_ex (\<lambda>v. v_id v = voice_id) (available_voices s')"
    and pp: "process_params (case params of None \<Rightarrow> Map.empty | Some p \<Rightarrow> p) = Inr pp"
    and "write_error e (audio_file_path e voice_id text) = None"
  shows "\<exists>speech_rate. num_of (p_speed pp) = Some speech_rate \<and>
           1 / 2 \<le> speech_rate \<and> speech_rate \<le> 2 \<and>
           generate_audio e s fs text voice_id params =
             (Inr \<lparr>a_file_path = audio_file_path e voice_id text,
                   a_duration = (real (length (py_split text)) / 150) * (1 / speech_rate),
                   a_format = ''mp3'', a_sample_rate = 24000,
                   a_text_length = length text, a_voice_id = voice_id,
                   a_parameters = pp\<rparr>,
              s', fs @ [(audio_file_path e voice_id text, ''Mock audio data'')])"
proof -
  from process_params_speed [OF pp] obtain r where
    r: "num_of (p_speed pp) = Some r" "1 / 2 \<le> r" "r \<le> 2"
    by (auto simp: in_range_def split: option.splits)
  then have "r \<noteq> 0" by auto
  with assms r show ?thesis
    by (simp add: generate_audio_def generate_audio_body_def Let_def)
qed

lemma generate_audio_returns:
  assumes "generate_audio e s fs text voice_id params = (Inr r, s', fs')"
  shows "text \<noteq> [] \<and> length text \<le> 10000 \<and> voice_id \<noteq> [] \<and>
         ensure_model_loaded s = Inr s' \<and>
         list_ex (\<lambda>v. v_id v = voice_id) (available_voices s') \<and>
         process_params (case params of None \<Rightarrow> Map.empty | Some p \<Rightarrow> p) = Inr (a_parameters r) \<and>
         write_error e (audio_file_path e voice_id text) = None"
  using assms
  by (auto simp: generate_audio_def generate_audio_body_def ensure_model_loaded_eq Let_def
      split: if_splits sum.splits option.splits prod.splits)

lemma reachable_has_voice_1:
  assumes "reachable s" and "ensure_model_loaded s = Inr s'"
  shows "list_ex (\<lambda>v. v_id v = ''voice_1'') (available_voices s')"
proof -
  from assms have "catalog_ok s'" "initialized s'"
    using reachable_catalog_ok catalog_ok_ensure by blast+
  then obtain cs where "available_voices s' = builtin_voices @ cs"
    by (auto simp: catalog_ok_def)
  then show ?thesis by (simp add: builtin_voices_def builtin_voice_def)
qed

lemma hello_world_words: "length (py_split ''Hello world'') = 2"
  by (simp add: py_split_def isspace_def)

lemma speed_one_params:
  "process_params [''speed'' \<mapsto> PFloat 1] =
     Inr \<lparr>p_pitch = PFloat 0, p_speed = PFloat 1, p_emotion = ''neutral'', p_emphasis = []\<rparr>"
  by (simp add: process_params_def bind_err_def process_pitch_def process_speed_def
        process_emotion_def process_emphasis_def)

text \<open>
  Claim C3. Whenever \<^verbatim>\<open>generate_audio\<close> returns, the duration is the number of
  words of the text over 150, times one over the speed of the processed parameters
  (a number between 0.5 and 2), and the format is \<^verbatim>\<open>"mp3"\<close>. In every reachable
  state, and when the audio file can be written, the call on \<^verbatim>\<open>"Hello world"\<close>,
  \<^verbatim>\<open>voice_1\<close> and speed 1.0 returns with duration \<open>2 / 150\<close> and format
  \<^verbatim>\<open>"mp3"\<close>. On the empty text every call fails with a \<^verbatim>\<open>ValueError\<close> and
  changes nothing.
\<close>

theorem generate_audio_duration:
  "(generate_audio e s fs text voice_id params = (Inr r, s', fs') \<longrightarrow>
      (\<exists>speed. num_of (p_speed (a_parameters r)) = Some speed \<and>
          1 / 2 \<le> speed \<and> speed \<le> 2 \<and>
          a_duration r = (real (length (py_split text)) / 150) * (1 / speed)) \<and>
      process_params (case params of None \<Rightarrow> Map.empty | Some p \<Rightarrow> p) = Inr (a_parameters r) \<and>
      a_format r = ''mp3'')
   \<and> (reachable s0 \<and> write_error e0 (audio_file_path e0 ''voice_1'' ''Hello world'') = None \<longrightarrow>
      (\<exists>r0 s0' fs0'.
          generate_audio e0 s0 fs0 ''Hello world'' ''voice_1'' (Some [''speed'' \<mapsto> PFloat 1]) =
            (Inr r0, s0', fs0') \<and>
          a_duration r0 = 2 / 150 \<and> a_format r0 = ''mp3''))
   \<and> (\<exists>m. generate_audio e1 s1 fs1 [] voice_id1 params1 = (Inl (ValueError m), s1, fs1))"
proof (intro conjI)
  show "generate_audio e s fs text voice_id params = (Inr r, s', fs') \<longrightarrow>
      (\<exists>speed. num_of (p_speed (a_parameters r)) = Some speed \<and>
          1 / 2 \<le> speed \<and> speed \<le> 2 \<and>
          a_duration r = (real (length (py_split text)) / 150) * (1 / speed)) \<and>
      process_params (case params of None \<Rightarrow> Map.empty | Some p \<Rightarrow> p) = Inr (a_parameters r) \<and>
      a_format r = ''mp3''"
  proof
  assume ret: "generate_audio e s fs text voice_id params = (Inr r, s', fs')"
  note g = generate_audio_returns [OF ret]
  from g have pp: "process_params (case params of None \<Rightarrow> Map.empty | Some p \<Rightarrow> p) =
      Inr (a_parameters r)" by simp
  from g have "\<exists>speech_rate. num_of (p_speed (a_parameters r)) = Some speech_rate \<and>
           1 / 2 \<le> speech_rate \<and> speech_rate \<le> 2 \<and>
           generate_audio e s fs text voice_id params =
             (Inr \<lparr>a_file_path = audio_file_path e voice_id text,
                   a_duration = (real (length (py_split text)) / 150) * (1 / speech_rate),
                   a_format = ''mp3'', a_sample_rate = 24000,
                   a_text_length = length text, a_voice_id = voice_id,
                   a_parameters = a_parameters r\<rparr>,
              s', fs @ [(audio_file_path e voice_id text, ''Mock audio data'')])"
    by (intro generate_audio_success) simp_all
  then obtain speed where sp: "num_of (p_speed (a_parameters r)) = Some speed"
      "1 / 2 \<le> speed" "speed \<le> 2"
    and eq: "generate_audio e s fs text voice_id params =
             (Inr \<lparr>a_file_path = audio_file_path e voice_id text,
                   a_duration = (real (length (py_split text)) / 150) * (1 / speed),
                   a_format = ''mp3'', a_sample_rate = 24000,
                   a_text_length = length text, a_voice_id = voice_id,
                   a_parameters = a_parameters r\<rparr>,
              s', fs @ [(audio_file_path e voice_id text, ''Mock audio data'')])"
    by blast
  from ret eq have r: "r = \<lparr>a_file_path = audio_file_path e voice_id text,
                   a_duration = (real (length (py_split text)) / 150) * (1 / speed),
                   a_format = ''mp3'', a_sample_rate = 24000,
                   a_text_length = length text, a_voice_id = voice_id,
                   a_parameters = a_parameters r\<rparr>" by simp
  have d: "a_duration r = (real (length (py_split text)) / 150) * (1 / speed)"
    by (subst r) simp
  have f: "a_format r = ''mp3''" by (subst r) simp
  from sp d pp f show
    "(\<exists>speed. num_of (p_speed (a_parameters r)) = Some speed \<and>
          1 / 2 \<le> speed \<and> speed \<le> 2 \<and>
          a_duration r = (real (length (py_split text)) / 150) * (1 / speed)) \<and>
      process_params (case params of None \<Rightarrow> Map.empty | Some p \<Rightarrow> p) = Inr (a_parameters r) \<and>
      a_format r = ''mp3''" by blast
  qed
next
  show "reachable s0 \<and> write_error e0 (audio_file_path e0 ''voice_1'' ''Hello world'') = None \<longrightarrow>
      (\<exists>r0 s0' fs0'.
          generate_audio e0 s0 fs0 ''Hello world'' ''voice_1'' (Some [''speed'' \<mapsto> PFloat 1]) =
            (Inr r0, s0', fs0') \<and>
          a_duration r0 = 2 / 150 \<and> a_format r0 = ''mp3'')"
  proof
  assume a: "reachable s0 \<and> write_error e0 (audio_file_path e0 ''voice_1'' ''Hello world'') = None"
  obtain s0' where e: "ensure_model_loaded s0 = Inr s0'" by (simp add: ensure_model_loaded_eq)
  with a have v: "list_ex (\<lambda>v. v_id v = ''voice_1'') (available_voices s0')"
    using reachable_has_voice_1 by blast
  have "\<exists>speech_rate.
          num_of (p_speed \<lparr>p_pitch = PFloat 0, p_speed = PFloat 1, p_emotion = ''neutral'',
                           p_emphasis = []\<rparr>) = Some speech_rate \<and>
          1 / 2 \<le> speech_rate \<and> speech_rate \<le> 2 \<and>
          generate_audio e0 s0 fs0 ''Hello world'' ''voice_1'' (Some [''speed'' \<mapsto> PFloat 1]) =
            (Inr \<lparr>a_file_path = audio_file_path e0 ''voice_1'' ''Hello world'',
                  a_duration = (real (length (py_split ''Hello world'')) / 150) * (1 / speech_rate),
                  a_format = ''mp3'', a_sample_rate = 24000,
                  a_text_length = length ''Hello world'', a_voice_id = ''voice_1'',
                  a_parameters = \<lparr>p_pitch = PFloat 0, p_speed = PFloat 1,
                                  p_emotion = ''neutral'', p_emphasis = []\<rparr>\<rparr>,
             s0', fs0 @ [(audio_file_path e0 ''voice_1'' ''Hello world'', ''Mock audio data'')])"
    using e v a by (intro generate_audio_success) (simp_all add: speed_one_params)
  then show "\<exists>r0 s0' fs0'.
          generate_audio e0 s0 fs0 ''Hello world'' ''voice_1'' (Some [''speed'' \<mapsto> PFloat 1]) =
            (Inr r0, s0', fs0') \<and>
          a_duration r0 = 2 / 150 \<and> a_format r0 = ''mp3''"
    by (auto simp: hello_world_words)
  qed
next
  show "\<exists>m. generate_audio e1 s1 fs1 [] voice_id1 params1 = (Inl (ValueError m), s1, fs1)"
    by (simp add: generate_audio_text_gate)
qed

text \<open>
  Claim C2, at the input where the code departs from it. The call
  \<^verbatim>\<open>generate_audio("Hello", "voice_1", {"pitch": 11.0})\<close> passes the text checks and
  the voice lookup, and its invalid pitch is found before any file is written; but the
  \<^verbatim>\<open>ValueError\<close> of \<^verbatim>\<open>_process_params\<close> is caught by the \<^verbatim>\<open>except Exception\<close>
  clause and leaves as a \<^verbatim>\<open>TTSProcessingError\<close>, the exception that a failure to
  write the audio file raises as well. The docstring of \<^verbatim>\<open>generate_audio\<close> promises
  \<^verbatim>\<open>ValueError\<close> for invalid inputs.
\<close>

theorem generate_audio_invalid_params_error:
  "generate_audio sample_env (init_tts True) [] ''Hello'' ''voice_1''
       (Some [''pitch'' \<mapsto> PFloat 11]) =
     (Inl (TTSProcessingError
             (Prefixed ''Failed to generate audio: ''
                (Lit ''Pitch must be between -10.0 and 10.0''))),
      init_tts True, [])
   \<and> generate_audio full_disk_env (init_tts True) [] ''Hello'' ''voice_1'' None =
     (Inl (TTSProcessingError (Prefixed ''Failed to generate audio: '' (Uncaught ''OSError''))),
      init_tts True, [])"
proof
  have e: "ensure_model_loaded (init_tts True) = Inr (init_tts True)"
    by (simp add: ensure_model_loaded_eq init_tts_True)
  have v: "list_ex (\<lambda>v. v_id v = ''voice_1'') (available_voices (init_tts True))"
    by (simp add: init_tts_True builtin_voices_def builtin_voice_def)
  have p: "process_params [''pitch'' \<mapsto> PFloat 11] =
             Inl (ValueError (Lit ''Pitch must be between -10.0 and 10.0''))"
    by (simp add: process_params_def bind_err_def process_pitch_def)
  show "generate_audio sample_env (init_tts True) [] ''Hello'' ''voice_1''
       (Some [''pitch'' \<mapsto> PFloat 11]) =
     (Inl (TTSProcessingError
             (Prefixed ''Failed to generate audio: ''
                (Lit ''Pitch must be between -10.0 and 10.0''))),
      init_tts True, [])"
    using generate_audio_params_gate [OF _ _ _ e v, of "''Hello''"
        "Some [''pitch'' \<mapsto> PFloat 11]" _ sample_env "[]"] p
    by simp
  have q: "process_params Map.empty =
     Inr \<lparr>p_pitch = PFloat 0, p_speed = PFloat 1, p_emotion = ''neutral'', p_emphasis = []\<rparr>"
    by (simp add: process_params_def bind_err_def process_pitch_def process_speed_def
        process_emotion_def process_emphasis_def)
  show "generate_audio full_disk_env (init_tts True) [] ''Hello'' ''voice_1'' None =
     (Inl (TTSProcessingError (Prefixed ''Failed to generate audio: '' (Uncaught ''OSError''))),
      init_tts True, [])"
    using generate_audio_provider_failure [OF _ _ _ e v, of "''Hello''" None _ full_disk_env
        "Uncaught ''OSError''" "[]"] q
    by (simp add: full_disk_env_def)
qed

text \<open>
  The theorem at two calls that return: the scenario of the claim on a service that
  loads its model on first use, and a three-word text at speed 2, whose duration is
  \<open>(3 / 150) * (1 / 2)\<close>.
\<close>

theorem generate_audio_duration_witness:
  "(\<exists>r s' fs'.
      generate_audio sample_env (init_tts False) [] ''Hello world'' ''voice_1''
          (Some [''speed'' \<mapsto> PFloat 1]) = (Inr r, s', fs') \<and>
      a_duration r = 2 / 150 \<and> a_format r = ''mp3'')
   \<and> (\<exists>r s' fs'.
      generate_audio sample_env (init_tts True) [] ''one two three'' ''voice_2''
          (Some [''speed'' \<mapsto> PInt 2]) = (Inr r, s', fs') \<and>
      p_speed (a_parameters r) = PInt 2 \<and> a_duration r = 1 / 100 \<and> a_format r = ''mp3'')"
proof
  have r: "reachable (init_tts False)" by (rule reach_init)
  have w: "write_error sample_env (audio_file_path sample_env ''voice_1'' ''Hello world'') = None"
    by (simp add: sample_env_def)
  from generate_audio_duration [of _ _ _ _ _ _ _ _ _ "init_tts False" sample_env "[]"] r w
  show "\<exists>r s' fs'.
      generate_audio sample_env (init_tts False) [] ''Hello world'' ''voice_1''
          (Some [''speed'' \<mapsto> PFloat 1]) = (Inr r, s', fs') \<and>
      a_duration r = 2 / 150 \<and> a_format r = ''mp3''"
    by blast
next
  let ?call = "generate_audio sample_env (init_tts True) [] ''one two three'' ''voice_2''
          (Some [''speed'' \<mapsto> PInt 2])"
  have e: "ensure_model_loaded (init_tts True) = Inr (init_tts True)"
    by (simp add: ensure_model_loaded_eq init_tts_True)
  have v: "list_ex (\<lambda>v. v_id v = ''voice_2'') (available_voices (init_tts True))"
    by (simp add: init_tts_True builtin_voices_def builtin_voice_def)
  have p: "process_params [''speed'' \<mapsto> PInt 2] =
     Inr \<lparr>p_pitch = PFloat 0, p_speed = PInt 2, p_emotion = ''neutral'', p_emphasis = []\<rparr>"
    by (simp add: process_params_def bind_err_def process_pitch_def process_speed_def
        process_emotion_def process_emphasis_def)
  have w: "write_error sample_env (audio_file_path sample_env ''voice_2'' ''one two three'') = None"
    by (simp add: sample_env_def)
  have "\<exists>r s' fs'. ?call = (Inr r, s', fs')"
    using generate_audio_success [OF _ _ _ e v, of "''one two three''" "Some [''speed'' \<mapsto> PInt 2]"
        _ sample_env "[]"] p w by auto
  then obtain r s' fs' where c: "?call = (Inr r, s', fs')" by blast
  from generate_audio_duration [of sample_env "init_tts True" "[]" "''one two three''" "''voice_2''"
      "Some [''speed'' \<mapsto> PInt 2]" r s' fs' "init_tts True" sample_env "[]"
      sample_env "init_tts True" "[]" "[]" None] c
  have "(\<exists>speed. num_of (p_speed (a_parameters r)) = Some speed \<and>
      a_duration r = (real (length (py_split ''one two three'')) / 150) * (1 / speed)) \<and>
      process_params (case Some [''speed'' \<mapsto> PInt 2] of None \<Rightarrow> Map.empty | Some p \<Rightarrow> p) =
        Inr (a_parameters r) \<and>
      a_format r = ''mp3''" by blast
  then have t: "(\<exists>speed. num_of (p_speed (a_parameters r)) = Some speed \<and>
      a_duration r = (real (length (py_split ''one two three'')) / 150) * (1 / speed)) \<and>
      process_params [''speed'' \<mapsto> PInt 2] = Inr (a_parameters r) \<and>
      a_format r = ''mp3''" by simp
  with p have sp: "p_speed (a_parameters r) = PInt 2" by auto
  have "length (py_split ''one two three'') = 3" by (simp add: py_split_def isspace_def)
  with t sp have "a_duration r = 1 / 100" by auto
  with c t sp show "\<exists>r s' fs'. ?call = (Inr r, s', fs') \<and>
      p_speed (a_parameters r) = PInt 2 \<and> a_duration r = 1 / 100 \<and> a_format r = ''mp3''"
    by blast
qed

end
